theory Spec2Isabelle
  imports Complex_Main
begin

section \<open>Python strings\<close>

text \<open>
  A Python \<open>str\<close> is modelled as a \<open>string\<close>; one \<open>char\<close> stands for one code point
  (those below 256). \<open>py_isspace\<close> is \<open>str.isspace\<close> on one code point of that range:
  TAB, LF, VT, FF, CR, the separators FS, GS, RS, US, the space, NEL (0x85) and the
  no-break space (0xA0).
\<close>

definition py_isspace :: "char \<Rightarrow> bool" where
  "py_isspace c =
     (let n = (of_char c :: nat)
      in (9 \<le> n \<and> n \<le> 13) \<or> (28 \<le> n \<and> n \<le> 32) \<or> n = 133 \<or> n = 160)"

text \<open>\<open>s.strip()\<close>: the whitespace at both ends is removed.\<close>

definition py_lstrip :: "string \<Rightarrow> string" where
  "py_lstrip s = dropWhile py_isspace s"

definition py_rstrip :: "string \<Rightarrow> string" where
  "py_rstrip s = rev (dropWhile py_isspace (rev s))"

definition py_strip :: "string \<Rightarrow> string" where
  "py_strip s = py_rstrip (py_lstrip s)"

text \<open>\<open>sep.join(xs)\<close>.\<close>

fun py_join :: "string \<Rightarrow> string list \<Rightarrow> string" where
  "py_join sep [] = []"
| "py_join sep [x] = x"
| "py_join sep (x # y # ys) = x @ sep @ py_join sep (y # ys)"

text \<open>\<open>s.replace(c, new)\<close> for a pattern \<open>c\<close> of one character.\<close>

definition py_replace_char :: "char \<Rightarrow> string \<Rightarrow> string \<Rightarrow> string" where
  "py_replace_char c new s = concat (map (\<lambda>x. if x = c then new else [x]) s)"

text \<open>\<open>s.removeprefix(p)\<close>.\<close>

definition removeprefix :: "string \<Rightarrow> string \<Rightarrow> string" where
  "removeprefix p s = (if take (length p) s = p then drop (length p) s else s)"

text \<open>
  \<open>xs[i:]\<close> for any integer \<open>i\<close>: a negative start counts from the end and is clamped
  at the start of the list, a start beyond the end gives the empty list.
\<close>

definition py_slice_from :: "int \<Rightarrow> 'a list \<Rightarrow> 'a list" where
  "py_slice_from i xs =
     (let n = int (length xs);
          start = (if i < 0 then max (n + i) 0 else min i n)
      in drop (nat start) xs)"

subsection \<open>Decimal formatting\<close>

definition digit_char :: "nat \<Rightarrow> char" where
  "digit_char d = ''0123456789'' ! (d mod 10)"

text \<open>\<open>str(n)\<close> for \<open>n \<ge> 0\<close>.\<close>

fun str_nat :: "nat \<Rightarrow> string" where
  "str_nat n = (if n < 10 then [digit_char n] else str_nat (n div 10) @ [digit_char n])"

declare str_nat.simps [simp del]

text \<open>The printf conversions \<open>%02d\<close>, \<open>%04d\<close> and \<open>%2d\<close> on a number that is not negative.\<close>

definition pad_left :: "char \<Rightarrow> nat \<Rightarrow> string \<Rightarrow> string" where
  "pad_left c w s = replicate (w - length s) c @ s"

definition fmt_02d :: "nat \<Rightarrow> string" where
  "fmt_02d n = pad_left (CHR ''0'') 2 (str_nat n)"

definition fmt_04d :: "nat \<Rightarrow> string" where
  "fmt_04d n = pad_left (CHR ''0'') 4 (str_nat n)"

definition fmt_2d :: "nat \<Rightarrow> string" where
  "fmt_2d n = pad_left (CHR '' '') 2 (str_nat n)"

text \<open>
  The format specification \<open>{n:,}\<close> on an \<open>int\<close>: the decimal digits in groups of three from
  the right, separated by commas, after the sign.
\<close>

fun group_thousands :: "nat \<Rightarrow> string" where
  "group_thousands n =
     (if n < 1000 then str_nat n
      else group_thousands (n div 1000) @ '','' @ pad_left (CHR ''0'') 3 (str_nat (n mod 1000)))"

declare group_thousands.simps [simp del]

definition fmt_comma :: "int \<Rightarrow> string" where
  "fmt_comma i = (if i < 0 then ''-'' @ group_thousands (nat (- i)) else group_thousands (nat i))"

section \<open>The clock\<close>

text \<open>
  What \<open>datetime.now()\<close> returns: a naive local date and time. \<open>weekday\<close> is the ISO weekday
  (1 is Monday, 7 is Sunday), \<open>month\<close> is 1 to 12.
\<close>

record datetime =
  year :: nat
  month :: nat
  day :: nat
  weekday :: nat
  hour :: nat
  minute :: nat
  second :: nat

text \<open>\<open>dt.time().isoformat(timespec='seconds')\<close>.\<close>

definition time_isoformat_seconds :: "datetime \<Rightarrow> string" where
  "time_isoformat_seconds dt =
     fmt_02d (hour dt) @ '':'' @ fmt_02d (minute dt) @ '':'' @ fmt_02d (second dt)"

definition DAYNAMES :: "string list" where
  "DAYNAMES = [''Mon'', ''Tue'', ''Wed'', ''Thu'', ''Fri'', ''Sat'', ''Sun'']"

definition MONTHNAMES :: "string list" where
  "MONTHNAMES = [''Jan'', ''Feb'', ''Mar'', ''Apr'', ''May'', ''Jun'',
                 ''Jul'', ''Aug'', ''Sep'', ''Oct'', ''Nov'', ''Dec'']"

text \<open>\<open>dt.ctime()\<close>, the format \<open>"%s %s %2d %02d:%02d:%02d %04d"\<close>.\<close>

definition ctime :: "datetime \<Rightarrow> string" where
  "ctime dt =
     DAYNAMES ! ((weekday dt - 1) mod 7) @ '' '' @ MONTHNAMES ! ((month dt - 1) mod 12) @ '' '' @
     fmt_2d (day dt) @ '' '' @
     fmt_02d (hour dt) @ '':'' @ fmt_02d (minute dt) @ '':'' @ fmt_02d (second dt) @ '' '' @
     fmt_04d (year dt)"

section \<open>The dashboard\<close>

text \<open>What a \<open>Panel\<close> is given: a text, or the grid of the header with its one row.\<close>

datatype renderable = Text string | Grid "string list"

record panel =
  content :: renderable
  title :: "string option"

definition MAX_SENTENCES :: int where
  "MAX_SENTENCES = 30"

text \<open>\<open>TextLog.__rich__\<close>: the sentences that are shown, and the panel.\<close>

definition visible_sentences :: "string list \<Rightarrow> string list" where
  "visible_sentences sentences = py_slice_from (- MAX_SENTENCES) sentences"

definition TextLog_rich :: "string list \<Rightarrow> panel" where
  "TextLog_rich sentences =
     \<lparr>content = Text (py_join [CHR 0x0A] (visible_sentences sentences)),
      title = Some ''Sentence log''\<rparr>"

text \<open>\<open>Header.__rich__\<close> reads the clock.\<close>

definition Header_rich :: "datetime \<Rightarrow> panel" where
  "Header_rich now =
     \<lparr>content = Grid [''Prifysgol Bangor a ffrindiau'',
                      ''[bold]Vosk Live Demo[reset]'',
                      ''[green]'' @ py_replace_char (CHR '':'') ''[blink]:[/]'' (ctime now)],
      title = None\<rparr>"

text \<open>
  The run configuration, as \<open>args\<close> is once the sample rate has been resolved.
  The device is a number or a name (\<open>int_or_str\<close>).
\<close>

datatype device = DeviceId int | DeviceName string

record config =
  cfg_device :: "device option"
  cfg_samplerate :: int
  cfg_model :: "string option"

text \<open>\<open>Footer.__rich__\<close>; \<open>self.args.model if self.args.model else 'en-us'\<close> tests truthiness.\<close>

definition Footer_rich :: "config \<Rightarrow> panel" where
  "Footer_rich a =
     \<lparr>content = Text (py_join '' | ''
        [''Model: '' @ (case cfg_model a of None \<Rightarrow> ''en-us''
                        | Some m \<Rightarrow> if m = [] then ''en-us'' else m),
         ''Sample rate: '' @ fmt_comma (cfg_samplerate a),
         ''Block size: '' @ fmt_comma 8000]),
      title = Some ''Parameters''\<rparr>"

definition input_panel :: "string \<Rightarrow> panel" where
  "input_panel partial = \<lparr>content = Text partial, title = Some ''Live input''\<rparr>"

text \<open>
  What the layout holds during the session: \<open>Footer(args)\<close>, \<open>TextLog(completed_sentences)\<close>
  (the list itself, so that an append is seen by the next refresh) and the panel of the
  live input, replaced at each partial result.
\<close>

record session =
  args :: config
  completed_sentences :: "string list"
  live_input :: panel

text \<open>
  One refresh of \<open>Live\<close>: the four regions of \<open>make_layout\<close>, each rendered from what the
  layout holds, the header from the clock.
\<close>

record screen =
  header :: panel
  log :: panel
  input :: panel
  footer :: panel

definition render :: "datetime \<Rightarrow> session \<Rightarrow> screen" where
  "render now s =
     \<lparr>header = Header_rich now,
      log = TextLog_rich (completed_sentences s),
      input = live_input s,
      footer = Footer_rich (args s)\<rparr>"

section \<open>The transcript loop\<close>

text \<open>
  The recognizer's answer on one block: \<open>AcceptWaveform\<close> returned true and \<open>Result()\<close> holds
  the text, or it returned false and \<open>PartialResult()\<close> holds the partial text.
\<close>

datatype recognition = Final string | Partial string

definition log_entry :: "datetime \<Rightarrow> string \<Rightarrow> string" where
  "log_entry now sentence =
     ''[green]['' @ time_isoformat_seconds now @ '']:[reset] '' @ sentence"

text \<open>The body of the processing loop, on one block, with the clock's reading.\<close>

fun process_block :: "datetime \<Rightarrow> recognition \<Rightarrow> session \<Rightarrow> session" where
  "process_block now (Final text) s =
     (let sentence = py_strip text
      in if sentence \<noteq> []
         then s\<lparr>completed_sentences := completed_sentences s @ [log_entry now sentence]\<rparr>
         else s)"
| "process_block now (Partial partial) s = s\<lparr>live_input := input_panel partial\<rparr>"

section \<open>Exceptions and effects\<close>

text \<open>
  The exceptions that the program's own code raises, and \<open>OtherError\<close> for whatever a
  collaborator (sounddevice, huggingface_hub, tarfile, vosk, json) raises by its own.
\<close>

datatype exn =
    KeyboardInterrupt
  | FileNotFoundError string
  | ValueError string
  | UnboundLocalError string
  | OverflowError string
  | OtherError string

text \<open>How a \<open>Model\<close> is built: \<open>Model(lang=...)\<close> or \<open>Model(path)\<close>.\<close>

datatype model = ModelLang string | ModelPath string

text \<open>What the program does to the world, in the order it does it.\<close>

datatype event =
    Print string
  | QueryDevices "device option"
  | PathExists string
  | RepoExists string
  | HubGlob string
  | HubDownload string string
  | Extract string string
  | ListDir string
  | CreateModel model
  | OpenStream "device option" int
  | CreateRecognizer model int

text \<open>
  A computation: the events so far, and an exception or a value. An exception ends the
  computation where it is raised.
\<close>

type_synonym 'a comp = "event list \<times> (exn + 'a)"

definition ret :: "'a \<Rightarrow> 'a comp" where
  "ret x = ([], Inr x)"

definition raise_exn :: "exn \<Rightarrow> 'a comp" where
  "raise_exn e = ([], Inl e)"

definition emit :: "event \<Rightarrow> unit comp" where
  "emit ev = ([ev], Inr ())"

definition call :: "event \<Rightarrow> exn + 'a \<Rightarrow> 'a comp" where
  "call ev r = ([ev], r)"

definition raise_or :: "exn + 'a \<Rightarrow> 'a comp" where
  "raise_or r = ([], r)"

definition then_do :: "'a comp \<Rightarrow> ('a \<Rightarrow> 'b comp) \<Rightarrow> 'b comp" where
  "then_do m f =
     (case m of
        (t, Inl e) \<Rightarrow> (t, Inl e)
      | (t, Inr x) \<Rightarrow> (case f x of (t', r) \<Rightarrow> (t @ t', r)))"

text \<open>
  A float of Python: a finite value, which is a real number, an infinity or a NaN.
  \<open>int(x)\<close> truncates towards zero and raises on the other two.
\<close>

datatype pyfloat = Finite real | Infinity | NaN

fun py_int_of_float :: "pyfloat \<Rightarrow> exn + int" where
  "py_int_of_float (Finite x) = Inr (if 0 \<le> x then \<lfloor>x\<rfloor> else \<lceil>x\<rceil>)"
| "py_int_of_float Infinity = Inl (OverflowError ''cannot convert float infinity to integer'')"
| "py_int_of_float NaN = Inl (ValueError ''cannot convert float NaN to integer'')"

definition str_int :: "int \<Rightarrow> string" where
  "str_int i = (if i < 0 then ''-'' @ str_nat (nat (- i)) else str_nat (nat i))"

text \<open>
  The collaborators, each call answering with a value or an exception:
  \<open>sd.query_devices(device, "input")["default_samplerate"]\<close>, \<open>Path(p).exists()\<close>,
  \<open>repo_exists\<close>, \<open>HfFileSystem().glob\<close>, \<open>hf_hub_download\<close> (the local path of the file),
  \<open>tarfile.open\<close> with \<open>extractall\<close>, the entries of a directory once the archive is extracted
  (name, and whether it is a directory), the constructor of \<open>Model\<close>, opening the
  \<open>RawInputStream\<close> and the constructor of \<open>KaldiRecognizer\<close>.
\<close>

record world =
  query_devices :: "device option \<Rightarrow> exn + pyfloat"
  path_exists :: "string \<Rightarrow> exn + bool"
  repo_exists :: "string \<Rightarrow> exn + bool"
  hub_glob :: "string \<Rightarrow> exn + string list"
  hf_hub_download :: "string \<Rightarrow> string \<Rightarrow> exn + string"
  extractall :: "string \<Rightarrow> string \<Rightarrow> exn + unit"
  list_dir :: "string \<Rightarrow> exn + (string \<times> bool) list"
  create_model :: "model \<Rightarrow> exn + unit"
  open_stream :: "device option \<Rightarrow> int \<Rightarrow> exn + unit"
  create_recognizer :: "model \<Rightarrow> int \<Rightarrow> exn + unit"

text \<open>The constructor \<open>Model(...)\<close>: it returns the model, or raises.\<close>

definition Model :: "world \<Rightarrow> model \<Rightarrow> model comp" where
  "Model w m = then_do (call (CreateModel m) (create_model w m)) (\<lambda>_. ret m)"

section \<open>Splitting and paths\<close>

text \<open>\<open>s.split(sep, maxsplit)\<close> for a separator of one character; \<open>s.split(sep)\<close>.\<close>

fun py_split :: "char \<Rightarrow> nat \<Rightarrow> string \<Rightarrow> string list" where
  "py_split sep 0 s = [s]"
| "py_split sep (Suc n) s =
     (if sep \<in> set s
      then takeWhile (\<lambda>c. c \<noteq> sep) s # py_split sep n (tl (dropWhile (\<lambda>c. c \<noteq> sep) s))
      else [s])"

definition py_split_all :: "char \<Rightarrow> string \<Rightarrow> string list" where
  "py_split_all sep s = py_split sep (length s) s"

text \<open>\<open>s.rfind(c)\<close>: the last index of \<open>c\<close>, or \<open>-1\<close>.\<close>

definition py_rfind :: "char \<Rightarrow> string \<Rightarrow> int" where
  "py_rfind c s =
     (if c \<in> set s then int (length s) - 1 - int (length (takeWhile (\<lambda>x. x \<noteq> c) (rev s)))
      else - 1)"

text \<open>
  A \<open>PosixPath\<close>: its root (empty, one slash or two) and its components. \<open>Path\<close> parses a
  string as pathlib does: empty components and \<open>.\<close> are dropped.
\<close>

record ppath =
  root :: string
  parts :: "string list"

definition splitroot :: "string \<Rightarrow> string \<times> string" where
  "splitroot p =
     (if take 1 p \<noteq> ''/'' then ([], p)
      else if take 1 (drop 1 p) \<noteq> ''/'' \<or> take 1 (drop 2 p) = ''/'' then (''/'', drop 1 p)
      else (take 2 p, drop 2 p))"

definition components :: "string \<Rightarrow> string list" where
  "components rel = filter (\<lambda>x. x \<noteq> [] \<and> x \<noteq> ''.'') (py_split_all (CHR ''/'') rel)"

definition Path :: "string \<Rightarrow> ppath" where
  "Path p = (case splitroot p of (r, rel) \<Rightarrow> \<lparr>root = r, parts = components rel\<rparr>)"

definition path_str :: "ppath \<Rightarrow> string" where
  "path_str p =
     (if root p = [] \<and> parts p = [] then ''.'' else root p @ py_join ''/'' (parts p))"

definition parent :: "ppath \<Rightarrow> ppath" where
  "parent p = (if parts p = [] then p else p\<lparr>parts := butlast (parts p)\<rparr>)"

definition name :: "ppath \<Rightarrow> string" where
  "name p = (if parts p = [] then [] else last (parts p))"

definition stem :: "ppath \<Rightarrow> string" where
  "stem p =
     (let n = name p; i = py_rfind (CHR ''.'') n
      in if 0 < i \<and> i < int (length n) - 1 then take (nat i) n else n)"

text \<open>\<open>p / seg\<close> for a string \<open>seg\<close>: an absolute segment replaces the path.\<close>

definition joinpath :: "ppath \<Rightarrow> string \<Rightarrow> ppath" where
  "joinpath p seg =
     (if take 1 seg = ''/'' then Path seg else p\<lparr>parts := parts p @ components seg\<rparr>)"

section \<open>Model resolution\<close>

text \<open>
  Lines 123 to 134 of \<open>load_model_from_huggingface\<close>: the download, the extraction and the
  descent into a single directory. \<open>file_id\<close> is \<open>None\<close> when the variable was never
  assigned; reading it then raises before \<open>hf_hub_download\<close> is called.
\<close>

definition download_and_extract :: "world \<Rightarrow> string \<Rightarrow> string option \<Rightarrow> model comp" where
  "download_and_extract w model_name file_id =
     (case file_id of
        None \<Rightarrow> raise_exn (UnboundLocalError ''file_id'')
      | Some f \<Rightarrow>
          then_do (call (HubDownload model_name f) (hf_hub_download w model_name f)) (\<lambda>downloaded.
            let model_str_path = Path downloaded;
                extracted_path = joinpath (parent model_str_path)
                                   (py_split_all (CHR ''.'') (stem model_str_path) ! 0)
            in then_do (emit (Print (''Extracting model to '' @ path_str extracted_path))) (\<lambda>_.
               then_do (call (Extract (path_str model_str_path) (path_str extracted_path))
                          (extractall w (path_str model_str_path) (path_str extracted_path))) (\<lambda>_.
               then_do (call (ListDir (path_str extracted_path))
                          (list_dir w (path_str extracted_path))) (\<lambda>files.
                 let final_path = (if length files = 1 \<and> snd (files ! 0)
                                   then joinpath extracted_path (fst (files ! 0))
                                   else extracted_path)
                 in Model w (ModelPath (path_str final_path)))))))"

text \<open>
  \<open>load_model_from_huggingface\<close>. With a colon the identifier is split, at most twice, and
  unpacked into two variables. Without one the repository is searched for archives; the
  \<open>ValueError\<close> for more than one archive is built but not raised, so the function goes on
  with \<open>file_id\<close> unassigned.
\<close>

definition load_model_from_huggingface :: "world \<Rightarrow> string \<Rightarrow> model comp" where
  "load_model_from_huggingface w model_id =
     (if CHR '':'' \<in> set model_id
      then (case py_split (CHR '':'') 2 model_id of
              [model_name, file_id] \<Rightarrow> download_and_extract w model_name (Some file_id)
            | [] \<Rightarrow> raise_exn (ValueError ''not enough values to unpack (expected 2, got 0)'')
            | [_] \<Rightarrow> raise_exn (ValueError ''not enough values to unpack (expected 2, got 1)'')
            | _ \<Rightarrow> raise_exn (ValueError ''too many values to unpack (expected 2)''))
      else
        then_do (call (HubGlob (model_id @ ''/*.tar.gz'')) (hub_glob w (model_id @ ''/*.tar.gz'')))
          (\<lambda>tars.
             then_do (if length tars = 1
                      then then_do (emit (Print (''Resolved model tar file to be '' @ tars ! 0)))
                             (\<lambda>_. ret (Some (removeprefix ''/'' (removeprefix model_id (tars ! 0)))))
                      else ret None)
               (\<lambda>file_id.
                  if length tars = 0
                  then raise_exn (FileNotFoundError
                         (''Could not locate a tar.gz in the repo '' @ model_id @
                          ''. Use a colon after the model id to specify one''))
                  else download_and_extract w model_id file_id)))"

text \<open>The selection of the model in \<open>main\<close> of \<open>vosk_cli\<close> and of \<open>vosk_tui\<close>.\<close>

definition select_model_cli :: "world \<Rightarrow> string option \<Rightarrow> model comp" where
  "select_model_cli w model_arg =
     (case model_arg of
        None \<Rightarrow> Model w (ModelLang ''en-us'')
      | Some m \<Rightarrow>
          then_do (call (PathExists m) (path_exists w m)) (\<lambda>is_path.
            if is_path then Model w (ModelPath m)
            else Model w (ModelLang m)))"

definition select_model_tui :: "world \<Rightarrow> string option \<Rightarrow> model comp" where
  "select_model_tui w model_arg =
     (case model_arg of
        None \<Rightarrow> Model w (ModelLang ''en-us'')
      | Some m \<Rightarrow>
          then_do (call (PathExists m) (path_exists w m)) (\<lambda>is_path.
            if is_path then Model w (ModelPath m)
            else then_do (call (RepoExists m) (repo_exists w m)) (\<lambda>is_repo.
                   if is_repo then load_model_from_huggingface w m
                   else Model w (ModelLang m))))"

section \<open>The main function\<close>

text \<open>The arguments as \<open>get_args\<close> returns them.\<close>

record arguments =
  device :: "device option"
  samplerate :: "int option"
  model_arg :: "string option"

text \<open>The sample rate: the one given, or the default of the device as an \<open>int\<close>.\<close>

definition resolve_samplerate :: "world \<Rightarrow> arguments \<Rightarrow> int comp" where
  "resolve_samplerate w a =
     (case samplerate a of
        None \<Rightarrow>
          then_do (call (QueryDevices (device a)) (query_devices w (device a))) (\<lambda>default_samplerate.
          then_do (raise_or (py_int_of_float default_samplerate)) (\<lambda>rate.
          then_do (emit (Print (''Using a sample rate of '' @ str_int rate))) (\<lambda>_. ret rate)))
      | Some rate \<Rightarrow> ret rate)"

text \<open>
  What one turn of the processing loop meets: a block that the recognizer answers, with the
  clock's reading at that turn, or an exception raised during the turn (by \<open>q.get()\<close>, the
  recognizer or \<open>json.loads\<close>; an interrupt from the keyboard is one).
\<close>

datatype tick = Block recognition datetime | Raise exn

text \<open>
  The loop \<open>while True\<close> on the turns given. It never ends by itself: when the turns are used
  up it waits in \<open>q.get()\<close>, which is the result \<open>Inr\<close> with the session as it is then.
\<close>

fun processing_loop :: "session \<Rightarrow> tick list \<Rightarrow> exn + session" where
  "processing_loop s [] = Inr s"
| "processing_loop s (Raise e # ticks) = Inl e"
| "processing_loop s (Block r now # ticks) = processing_loop (process_block now r s) ticks"

text \<open>
  The body of \<open>try\<close> after the sample rate: the model, the layout, the stream, the recognizer
  and the loop. The two programs differ in the selection of the model only.
\<close>

definition run_session ::
  "(world \<Rightarrow> string option \<Rightarrow> model comp) \<Rightarrow> world \<Rightarrow> arguments \<Rightarrow> int \<Rightarrow> tick list \<Rightarrow> session comp"
where
  "run_session select_model w a rate ticks =
     then_do (select_model w (model_arg a)) (\<lambda>m.
     then_do (call (OpenStream (device a) rate) (open_stream w (device a) rate)) (\<lambda>_.
     then_do (call (CreateRecognizer m rate) (create_recognizer w m rate)) (\<lambda>_.
       raise_or (processing_loop
         \<lparr>args = \<lparr>cfg_device = device a, cfg_samplerate = rate, cfg_model = model_arg a\<rparr>,
          completed_sentences = [],
          live_input = input_panel []\<rparr> ticks))))"

definition main_try ::
  "(world \<Rightarrow> string option \<Rightarrow> model comp) \<Rightarrow> world \<Rightarrow> arguments \<Rightarrow> tick list \<Rightarrow> session comp"
where
  "main_try select_model w a ticks =
     then_do (resolve_samplerate w a) (\<lambda>rate. run_session select_model w a rate ticks)"

text \<open>
  How \<open>main\<close> ends: \<open>exit(0)\<close> in the handler of \<open>KeyboardInterrupt\<close>, an exception that no
  handler catches, or the session still running.
\<close>

datatype outcome = Exit int | Uncaught exn | Running session

definition main_with ::
  "(world \<Rightarrow> string option \<Rightarrow> model comp) \<Rightarrow> world \<Rightarrow> arguments \<Rightarrow> tick list
   \<Rightarrow> event list \<times> outcome"
where
  "main_with select_model w a ticks =
     (case main_try select_model w a ticks of
        (t, Inl e) \<Rightarrow>
          if e = KeyboardInterrupt then (t @ [Print (CHR 0x0A # ''Done'')], Exit 0)
          else (t, Uncaught e)
      | (t, Inr s) \<Rightarrow> (t, Running s))"

definition vosk_cli_main :: "world \<Rightarrow> arguments \<Rightarrow> tick list \<Rightarrow> event list \<times> outcome" where
  "vosk_cli_main = main_with select_model_cli"

definition vosk_tui_main :: "world \<Rightarrow> arguments \<Rightarrow> tick list \<Rightarrow> event list \<times> outcome" where
  "vosk_tui_main = main_with select_model_tui"

text \<open>The sample rate that an event is given, for the events that are given one.\<close>

definition uses_rate :: "event \<Rightarrow> int option" where
  "uses_rate ev = (case ev of OpenStream d r \<Rightarrow> Some r | CreateRecognizer m r \<Rightarrow> Some r | _ \<Rightarrow> None)"

section \<open>Example inputs\<close>

definition example_now :: datetime where
  "example_now =
     \<lparr>year = 2024, month = 6, day = 9, weekday = 7, hour = 1, minute = 2, second = 3\<rparr>"

definition example_later :: datetime where
  "example_later =
     \<lparr>year = 2024, month = 6, day = 9, weekday = 7, hour = 1, minute = 2, second = 4\<rparr>"

definition example_session :: session where
  "example_session =
     \<lparr>args = \<lparr>cfg_device = None, cfg_samplerate = 16000, cfg_model = Some ''nl''\<rparr>,
      completed_sentences = [''[green][01:01:59]:[reset] bore da''],
      live_input = input_panel ''sut''\<rparr>"

text \<open>
  A world with one local model directory and three repositories on the hub: one with a
  single archive, one with two and one with none. Every collaborator succeeds; the
  default sample rate of the device is 44100.0.
\<close>

definition example_world :: world where
  "example_world =
     \<lparr>query_devices = (\<lambda>d. Inr (Finite 44100)),
      path_exists = (\<lambda>p. Inr (p = ''/models/nl'')),
      repo_exists = (\<lambda>r. Inr (r = ''org/one'' \<or> r = ''org/two'' \<or> r = ''org/none'')),
      hub_glob = (\<lambda>pat. Inr (if pat = ''org/one/*.tar.gz''
                               then [''org/one/vosk-model-0.22.tar.gz'']
                               else if pat = ''org/two/*.tar.gz''
                               then [''org/two/a.tar.gz'', ''org/two/b.tar.gz'']
                               else [])),
      hf_hub_download = (\<lambda>r f. Inr (''/cache/'' @ r @ ''/'' @ f)),
      extractall = (\<lambda>src dst. Inr ()),
      list_dir = (\<lambda>d. Inr [(''inner'', True)]),
      create_model = (\<lambda>m. Inr ()),
      open_stream = (\<lambda>d r. Inr ()),
      create_recognizer = (\<lambda>m r. Inr ())\<rparr>"

definition example_arguments :: arguments where
  "example_arguments = \<lparr>device = None, samplerate = None, model_arg = Some ''org/one''\<rparr>"

section \<open>Properties of the helpers\<close>

lemma then_do_Inl [simp]: "then_do (t, Inl e) f = (t, Inl e)"
  by (simp add: then_do_def)

lemma then_do_Inr [simp]: "then_do (t, Inr x) f = (t @ fst (f x), snd (f x))"
  by (simp add: then_do_def split: prod.splits)

lemmas comp_defs = call_def ret_def raise_exn_def emit_def raise_or_def

lemma Model_trace:
  "Model w m = ([CreateModel m], case create_model w m of Inl e \<Rightarrow> Inl e | Inr u \<Rightarrow> Inr m)"
  by (cases "create_model w m") (simp_all add: Model_def comp_defs)

lemma py_lstrip_split:
  "py_lstrip text = py_strip text @ rev (takeWhile py_isspace (rev (py_lstrip text)))"
  unfolding py_strip_def py_rstrip_def
  by (metis rev_append rev_rev_ident takeWhile_dropWhile_id)

lemma py_strip_decomp:
  "text = takeWhile py_isspace text @ py_strip text @ rev (takeWhile py_isspace (rev (py_lstrip text)))"
proof -
  have "text = takeWhile py_isspace text @ py_lstrip text"
    by (simp add: py_lstrip_def)
  with py_lstrip_split [of "text"] show ?thesis by metis
qed

lemma py_strip_last: 
  assumes "py_strip text \<noteq> []" shows "\<not> py_isspace (last (py_strip text))"
proof -
  let ?d = "dropWhile py_isspace (rev (py_lstrip text))"
  from assms have ne: "?d \<noteq> []" by (simp add: py_strip_def py_rstrip_def)
  then have "\<not> py_isspace (hd ?d)" by (rule hd_dropWhile)
  moreover have "last (py_strip text) = hd ?d"
    using ne by (simp add: py_strip_def py_rstrip_def last_rev)
  ultimately show ?thesis by simp
qed

lemma py_strip_hd: 
  assumes "py_strip text \<noteq> []" shows "\<not> py_isspace (hd (py_strip text))"
proof -
  from assms py_lstrip_split [of "text"] have ne: "py_lstrip text \<noteq> []" by auto
  then have "\<not> py_isspace (hd (py_lstrip text))"
    unfolding py_lstrip_def by (rule hd_dropWhile)
  moreover have "hd (py_lstrip text) = hd (py_strip text)"
    using assms py_lstrip_split [of "text"] by (metis hd_append2)
  ultimately show ?thesis by simp
qed

lemma py_strip_empty_iff: "py_strip text = [] \<longleftrightarrow> (\<forall>c\<in>set text. py_isspace c)"
proof
  assume e: "py_strip text = []"
  show "\<forall>c\<in>set text. py_isspace c"
  proof (rule ccontr)
    assume "\<not> (\<forall>c\<in>set text. py_isspace c)"
    then have ne: "py_lstrip text \<noteq> []" by (simp add: py_lstrip_def)
    then have "\<not> py_isspace (hd (py_lstrip text))"
      unfolding py_lstrip_def by (rule hd_dropWhile)
    moreover from e have "\<forall>c\<in>set (py_lstrip text). py_isspace c"
      by (simp add: py_strip_def py_rstrip_def)
    ultimately show False using ne by (meson hd_in_set)
  qed
next
  assume "\<forall>c\<in>set text. py_isspace c"
  then show "py_strip text = []"
    by (auto simp: py_strip_def py_rstrip_def py_lstrip_def dest: set_dropWhileD)
qed

lemma visible_sentences_drop: "visible_sentences xs = drop (length xs - 30) xs"
  unfolding visible_sentences_def py_slice_from_def MAX_SENTENCES_def
  by (auto simp: Let_def max_def intro!: arg_cong[where f="\<lambda>n. drop n xs"])

lemma example_strip: "py_strip ''  bore da  '' = ''bore da''"
  by code_simp

lemma example_iso: "time_isoformat_seconds example_now = ''01:02:03''"
  by code_simp

lemma ctime_now: "ctime example_now = ''Sun Jun  9 01:02:03 2024''"
  by code_simp
lemma ctime_later: "ctime example_later = ''Sun Jun  9 01:02:04 2024''"
  by code_simp

lemma example_try_interrupted:
  "main_try select_model_tui example_world
     \<lparr>device = None, samplerate = Some 16000, model_arg = None\<rparr>
     [Block (Partial ''bore'') example_now, Raise KeyboardInterrupt] =
   ([CreateModel (ModelLang ''en-us''), OpenStream None 16000,
     CreateRecognizer (ModelLang ''en-us'') 16000], Inl KeyboardInterrupt)"
  by (simp add: main_try_def resolve_samplerate_def run_session_def select_model_tui_def
      Model_trace comp_defs example_world_def)

lemma example_try_no_archive:
  "main_try select_model_tui example_world
     \<lparr>device = None, samplerate = Some 16000, model_arg = Some ''org/none''\<rparr> [] =
   ([PathExists ''org/none'', RepoExists ''org/none'', HubGlob ''org/none/*.tar.gz''],
    Inl (FileNotFoundError
      ''Could not locate a tar.gz in the repo org/none. Use a colon after the model id to specify one''))"
  by (simp add: main_try_def resolve_samplerate_def run_session_def select_model_tui_def
      load_model_from_huggingface_def Model_trace comp_defs example_world_def)

lemma then_do_events:
  "ev \<in> set (fst (then_do m f)) \<Longrightarrow>
   ev \<in> set (fst m) \<or> (\<exists>x. snd m = Inr x \<and> ev \<in> set (fst (f x)))"
  by (cases m; cases "snd m") auto

lemma uses_rate_simps [simp]:
  "uses_rate (Print x) = None" "uses_rate (QueryDevices d) = None"
  "uses_rate (PathExists p) = None" "uses_rate (RepoExists p) = None"
  "uses_rate (HubGlob p) = None" "uses_rate (HubDownload p q) = None"
  "uses_rate (Extract p q) = None" "uses_rate (ListDir p) = None"
  "uses_rate (CreateModel m) = None" "uses_rate (OpenStream d r) = Some r"
  "uses_rate (CreateRecognizer m r) = Some r"
  by (simp_all add: uses_rate_def)

lemma Model_no_rate: "ev \<in> set (fst (Model w m)) \<Longrightarrow> uses_rate ev = None"
  by (simp add: Model_trace)

lemma download_no_rate:
  "ev \<in> set (fst (download_and_extract w m f)) \<Longrightarrow> uses_rate ev = None"
  unfolding download_and_extract_def
  by (auto simp: comp_defs Let_def Model_trace split: option.splits
      dest!: then_do_events)


lemma load_no_rate:
  "ev \<in> set (fst (load_model_from_huggingface w m)) \<Longrightarrow> uses_rate ev = None"
  unfolding load_model_from_huggingface_def
  by (auto simp: comp_defs download_no_rate split: if_splits list.splits
      dest!: then_do_events)

lemma select_cli_no_rate:
  "ev \<in> set (fst (select_model_cli w m)) \<Longrightarrow> uses_rate ev = None"
  unfolding select_model_cli_def
  by (auto simp: comp_defs Model_no_rate split: option.splits if_splits
      dest!: then_do_events)

lemma select_tui_no_rate:
  "ev \<in> set (fst (select_model_tui w m)) \<Longrightarrow> uses_rate ev = None"
  unfolding select_model_tui_def
  by (auto simp: comp_defs Model_no_rate load_no_rate split: option.splits if_splits
      dest!: then_do_events)

lemma process_block_args: "args (process_block now r s) = args s"
  by (cases r) (simp_all add: Let_def)

lemma processing_loop_args:
  "processing_loop s ticks = Inr s' \<Longrightarrow> args s' = args s"
proof (induction s ticks rule: processing_loop.induct)
  case (1 s)
  then show ?case by simp
next
  case (2 s e ticks)
  then show ?case by simp
next
  case (3 s r now ticks)
  then show ?case by (simp add: process_block_args)
qed

lemma run_session_rate_events:
  assumes sel: "\<And>ev. ev \<in> set (fst (sel w (model_arg a))) \<Longrightarrow> uses_rate ev = None"
    and ev: "ev \<in> set (fst (run_session sel w a rate ticks))"
  shows "uses_rate ev = None \<or> uses_rate ev = Some rate"
  using ev unfolding run_session_def
  by (auto simp: comp_defs sel dest!: then_do_events)

lemma run_session_config:
  assumes "snd (run_session sel w a rate ticks) = Inr s"
  shows "cfg_samplerate (args s) = rate"
proof -
  obtain t r where m: "sel w (model_arg a) = (t, r)" by (cases "sel w (model_arg a)")
  show ?thesis
  proof (cases r)
    case (Inl e)
    with m assms show ?thesis by (simp add: run_session_def)
  next
    case (Inr mdl)
    show ?thesis
    proof (cases "open_stream w (device a) rate")
      case (Inl e)
      with m Inr assms show ?thesis by (simp add: run_session_def comp_defs)
    next
      case o: (Inr u)
      show ?thesis
      proof (cases "create_recognizer w mdl rate")
        case (Inl e)
        with m Inr o assms show ?thesis by (simp add: run_session_def comp_defs)
      next
        case c: (Inr u')
        with m Inr o assms have "processing_loop
           \<lparr>args = \<lparr>cfg_device = device a, cfg_samplerate = rate, cfg_model = model_arg a\<rparr>,
            completed_sentences = [], live_input = input_panel []\<rparr> ticks = Inr s"
          by (simp add: run_session_def comp_defs)
        from processing_loop_args [OF this] show ?thesis by simp
      qed
    qed
  qed
qed

lemma example_str_int: "str_int 44100 = ''44100''"
  by (simp add: str_int_def str_nat.simps digit_char_def)

lemma example_session_given_rate:
  "run_session select_model_cli example_world
     \<lparr>device = None, samplerate = None, model_arg = None\<rparr> 44100 [] =
   ([CreateModel (ModelLang ''en-us''), OpenStream None 44100,
     CreateRecognizer (ModelLang ''en-us'') 44100],
    Inr \<lparr>args = \<lparr>cfg_device = None, cfg_samplerate = 44100, cfg_model = None\<rparr>,
         completed_sentences = [], live_input = input_panel []\<rparr>)"
  by (simp add: run_session_def select_model_cli_def Model_trace comp_defs example_world_def)

lemma count_list_split:
  assumes "c \<in> set s"
  shows "count_list s c = Suc (count_list (tl (dropWhile (\<lambda>x. x \<noteq> c) s)) c)"
  using assms by (induction s) auto

lemma py_split_one_sep:
  assumes "count_list s c = 1"
  shows "py_split c 2 s = [takeWhile (\<lambda>x. x \<noteq> c) s, tl (dropWhile (\<lambda>x. x \<noteq> c) s)]"
proof -
  from assms have m: "c \<in> set s" by (metis count_list_0_iff zero_neq_one)
  with assms count_list_split [OF m] have "c \<notin> set (tl (dropWhile (\<lambda>x. x \<noteq> c) s))"
    by (simp add: count_list_0_iff)
  with m show ?thesis by (simp add: numeral_2_eq_2)
qed

lemma py_split_many_sep:
  assumes "2 \<le> count_list s c"
  shows "\<exists>x y z. py_split c 2 s = [x, y, z]"
proof -
  from assms have m: "c \<in> set s" by (metis count_list_0_iff not_numeral_le_zero)
  with assms count_list_split [OF m] have "c \<in> set (tl (dropWhile (\<lambda>x. x \<noteq> c) s))"
    by (metis count_list_0_iff Suc_1 not_less_eq_eq le_zero_eq One_nat_def Suc_le_mono)
  with m show ?thesis by (simp add: numeral_2_eq_2)
qed

lemma py_split_first:
  "py_split c n s ! 0 = (if n = 0 then s else takeWhile (\<lambda>x. x \<noteq> c) s)"
proof (cases n)
  case 0
  then show ?thesis by simp
next
  case (Suc k)
  show ?thesis
  proof (cases "c \<in> set s")
    case True
    with Suc show ?thesis by simp
  next
    case False
    then have "takeWhile (\<lambda>x. x \<noteq> c) s = s" by (induction s) auto
    with Suc False show ?thesis by (simp del: takeWhile_eq_all_conv)
  qed
qed

lemma py_split_all_first: "py_split_all c s ! 0 = takeWhile (\<lambda>x. x \<noteq> c) s"
  by (cases s) (simp_all only: py_split_all_def py_split_first list.size takeWhile.simps, simp_all)

lemma takeWhile_take_enough:
  "length (takeWhile P xs) \<le> k \<Longrightarrow> takeWhile P (take k xs) = takeWhile P xs"
proof (induction xs arbitrary: k)
  case Nil
  then show ?case by simp
next
  case (Cons x xs)
  then show ?case by (cases k) (auto split: if_splits)
qed

lemma takeWhile_before_sep:
  "\<not> P c \<Longrightarrow> length (takeWhile P (ys @ c # zs)) \<le> length ys"
  by (induction ys) auto

lemma takeWhile_until_sep:
  "c \<notin> set ys \<Longrightarrow> takeWhile (\<lambda>x. x \<noteq> c) (ys @ c # zs) = ys"
  by (induction ys) auto

lemma first_before_last:
  assumes "c \<in> set xs"
  shows "length (takeWhile (\<lambda>x. x \<noteq> c) xs) + length (takeWhile (\<lambda>x. x \<noteq> c) (rev xs)) + 1
           \<le> length xs"
proof -
  let ?P = "\<lambda>x. x \<noteq> c"
  from assms obtain ys zs where xs: "xs = ys @ c # zs" and ys: "c \<notin> set ys"
    by (meson split_list_first)
  have tw: "takeWhile ?P xs = ys"
    unfolding xs using ys by (rule takeWhile_until_sep)
  have "rev xs = rev zs @ c # rev ys" by (simp add: xs)
  then have "length (takeWhile ?P (rev xs)) \<le> length (rev zs)"
    using takeWhile_before_sep [of ?P c "rev zs" "rev ys"] by simp
  with tw xs show ?thesis by simp
qed

lemma stem_first_component:
  "takeWhile (\<lambda>x. x \<noteq> CHR ''.'') (stem p) = takeWhile (\<lambda>x. x \<noteq> CHR ''.'') (name p)"
proof (cases "CHR ''.'' \<in> set (name p)")
  case False
  then show ?thesis by (simp add: stem_def py_rfind_def Let_def)
next
  case True
  from first_before_last [OF True]
  have "length (takeWhile (\<lambda>x. x \<noteq> CHR ''.'') (name p))
          \<le> nat (py_rfind (CHR ''.'') (name p))"
    using True by (simp add: py_rfind_def)
  then show ?thesis
    by (simp add: stem_def Let_def takeWhile_take_enough)
qed

lemma extraction_dir_name:
  "py_split_all (CHR ''.'') (stem p) ! 0 = takeWhile (\<lambda>x. x \<noteq> CHR ''.'') (name p)"
  by (simp add: py_split_all_first stem_first_component)

lemma removeprefix_append: "removeprefix p (p @ s) = s"
  by (simp add: removeprefix_def)

lemma example_downloaded_path:
  "Path ''/cache/org/one/vosk-model-0.22.tar.gz'' =
     \<lparr>root = ''/'', parts = [''cache'', ''org'', ''one'', ''vosk-model-0.22.tar.gz'']\<rparr>"
  by (simp add: Path_def splitroot_def components_def py_split_all_def)

lemma example_stem:
  "stem (Path ''/cache/org/one/vosk-model-0.22.tar.gz'') = ''vosk-model-0.22.tar''"
  by (simp add: example_downloaded_path stem_def name_def py_rfind_def Let_def)

lemma example_extraction_dir:
  "joinpath (parent \<lparr>root = ''/'', parts = [''cache'', ''org'', ''one'', ''vosk-model-0.22.tar.gz'']\<rparr>)
     (takeWhile (\<lambda>c. c \<noteq> CHR ''.'')
        (name \<lparr>root = ''/'', parts = [''cache'', ''org'', ''one'', ''vosk-model-0.22.tar.gz'']\<rparr>)) =
   \<lparr>root = ''/'', parts = [''cache'', ''org'', ''one'', ''vosk-model-0'']\<rparr>"
  by (simp add: joinpath_def parent_def name_def components_def py_split_all_def)

lemma example_inner_dir:
  "joinpath \<lparr>root = ''/'', parts = [''cache'', ''org'', ''one'', ''vosk-model-0'']\<rparr> ''inner'' =
   \<lparr>root = ''/'', parts = [''cache'', ''org'', ''one'', ''vosk-model-0'', ''inner'']\<rparr>"
  by (simp add: joinpath_def components_def py_split_all_def)

lemma example_single_archive_run:
  "load_model_from_huggingface example_world ''org/one'' =
     ([HubGlob ''org/one/*.tar.gz'',
       Print ''Resolved model tar file to be org/one/vosk-model-0.22.tar.gz'',
       HubDownload ''org/one'' ''vosk-model-0.22.tar.gz'',
       Print ''Extracting model to /cache/org/one/vosk-model-0'',
       Extract ''/cache/org/one/vosk-model-0.22.tar.gz'' ''/cache/org/one/vosk-model-0'',
       ListDir ''/cache/org/one/vosk-model-0'',
       CreateModel (ModelPath ''/cache/org/one/vosk-model-0/inner'')],
      Inr (ModelPath ''/cache/org/one/vosk-model-0/inner''))"
  by (simp add: load_model_from_huggingface_def download_and_extract_def comp_defs Let_def
      extraction_dir_name example_extraction_dir example_inner_dir example_downloaded_path
      Model_trace path_str_def removeprefix_def example_world_def)

section \<open>The claims\<close>

text \<open>
  C1. A hub identifier without a colon whose repository holds no archive fails with
  \<open>FileNotFoundError\<close> and its message, after the search only: no download is attempted.
  With more than one archive the \<open>ValueError\<close> is built but never raised, and the function
  fails on reading the unassigned \<open>file_id\<close>, before any download.
\<close>

theorem no_archive_or_many_fails_before_download:
  assumes "CHR '':'' \<notin> set model_id"
    and "hub_glob w (model_id @ ''/*.tar.gz'') = Inr tars"
  shows "(tars = [] \<longrightarrow>
            load_model_from_huggingface w model_id =
              ([HubGlob (model_id @ ''/*.tar.gz'')],
               Inl (FileNotFoundError (''Could not locate a tar.gz in the repo '' @ model_id @
                      ''. Use a colon after the model id to specify one''))))
       \<and> (1 < length tars \<longrightarrow>
            load_model_from_huggingface w model_id =
              ([HubGlob (model_id @ ''/*.tar.gz'')], Inl (UnboundLocalError ''file_id'')))"
  using assms
  by (simp add: load_model_from_huggingface_def download_and_extract_def comp_defs)

theorem no_archive_or_many_fails_before_download_witness:
  "CHR '':'' \<notin> set ''org/two''
   \<and> hub_glob example_world (''org/two'' @ ''/*.tar.gz'') = Inr [''org/two/a.tar.gz'', ''org/two/b.tar.gz'']
   \<and> load_model_from_huggingface example_world ''org/two'' =
       ([HubGlob ''org/two/*.tar.gz''], Inl (UnboundLocalError ''file_id''))"
proof -
  have a: "CHR '':'' \<notin> set ''org/two''" by simp
  have b: "hub_glob example_world (''org/two'' @ ''/*.tar.gz'') = Inr [''org/two/a.tar.gz'', ''org/two/b.tar.gz'']"
    by (simp add: example_world_def)
  show ?thesis
    using a b no_archive_or_many_fails_before_download [OF a b] by simp
qed

text \<open>
  C2. A final result whose text is not empty once stripped appends exactly one entry to the
  sentence log: the time of day between the markup, then the stripped text. The stripped
  text is the text without the whitespace at its two ends.
\<close>

theorem final_nonempty_appends_one_entry:
  assumes "py_strip text \<noteq> []"
  shows "completed_sentences (process_block now (Final text) s) =
           completed_sentences s @
             [''[green]['' @ time_isoformat_seconds now @ '']:[reset] '' @ py_strip text]
         \<and> (\<exists>pre post. text = pre @ py_strip text @ post
               \<and> list_all py_isspace pre \<and> list_all py_isspace post)
         \<and> \<not> py_isspace (hd (py_strip text)) \<and> \<not> py_isspace (last (py_strip text))"
proof -
  have "completed_sentences (process_block now (Final text) s) =
          completed_sentences s @
            [''[green]['' @ time_isoformat_seconds now @ '']:[reset] '' @ py_strip text]"
    using assms by (simp add: Let_def log_entry_def)
  moreover have "\<exists>pre post. text = pre @ py_strip text @ post
                   \<and> list_all py_isspace pre \<and> list_all py_isspace post"
  proof (intro exI conjI)
    show "text = takeWhile py_isspace text @ py_strip text
                   @ rev (takeWhile py_isspace (rev (py_lstrip text)))"
      by (rule py_strip_decomp)
    show "list_all py_isspace (takeWhile py_isspace text)"
      by (auto simp: list_all_iff dest: set_takeWhileD)
    show "list_all py_isspace (rev (takeWhile py_isspace (rev (py_lstrip text))))"
      by (auto simp: list_all_iff dest: set_takeWhileD)
  qed
  ultimately show ?thesis
    using py_strip_hd [OF assms] py_strip_last [OF assms] by blast
qed

theorem final_nonempty_appends_one_entry_witness:
  "py_strip ''  bore da  '' \<noteq> []
   \<and> completed_sentences (process_block example_now (Final ''  bore da  '') example_session) =
       [''[green][01:01:59]:[reset] bore da'', ''[green][01:02:03]:[reset] bore da'']"
proof -
  have h: "py_strip ''  bore da  '' \<noteq> []" by (simp add: example_strip)
  from final_nonempty_appends_one_entry [OF h, of example_now example_session]
  have "completed_sentences (process_block example_now (Final ''  bore da  '') example_session) =
          completed_sentences example_session @
            [''[green]['' @ time_isoformat_seconds example_now @ '']:[reset] '' @ py_strip ''  bore da  '']"
    by blast
  then show ?thesis using h
    by (simp add: example_strip example_iso example_session_def)
qed

text \<open>
  C3. A final result whose text is empty or whitespace only leaves the session, and so the
  sentence log, as it was.
\<close>

theorem final_blank_leaves_log_unchanged:
  assumes "\<forall>c\<in>set text. py_isspace c"
  shows "process_block now (Final text) s = s"
  using assms py_strip_empty_iff [of "text"] by simp

theorem final_blank_leaves_log_unchanged_witness:
  "py_isspace (CHR '' '') \<and> py_isspace (CHR 0x09) \<and> py_isspace (CHR 0x0A)
   \<and> process_block example_now (Final [CHR '' '', CHR 0x09, CHR 0x0A]) example_session =
       example_session
   \<and> process_block example_now (Final []) example_session = example_session"
proof -
  have h: "py_isspace (CHR '' '') \<and> py_isspace (CHR 0x09) \<and> py_isspace (CHR 0x0A)"
    by (simp add: py_isspace_def)
  then have b: "\<forall>c\<in>set [CHR '' '', CHR 0x09, CHR 0x0A]. py_isspace c" by simp
  have e: "\<forall>c\<in>set ([] :: string). py_isspace c" by simp
  show ?thesis
    using h final_blank_leaves_log_unchanged [OF b, of example_now example_session]
      final_blank_leaves_log_unchanged [OF e, of example_now example_session]
    by blast
qed

text \<open>
  C4. The panel of the sentence log shows the last \<open>min (length xs) 30\<close> sentences, in the
  order of the list, joined by newlines. The list itself is only ever appended to: what it
  held before a block is a prefix of what it holds after.
\<close>

theorem log_view_shows_last_30:
  "visible_sentences xs = drop (length xs - 30) xs
   \<and> length (visible_sentences xs) = min (length xs) 30
   \<and> log (render now s) =
       \<lparr>content = Text (py_join [CHR 0x0A]
                    (drop (length (completed_sentences s) - 30) (completed_sentences s))),
        title = Some ''Sentence log''\<rparr>
   \<and> take (length (completed_sentences s)) (completed_sentences (process_block now r s)) =
       completed_sentences s"
proof -
  have "take (length (completed_sentences s)) (completed_sentences (process_block now r s)) =
       completed_sentences s"
    by (cases r) (simp_all add: Let_def)
  then show ?thesis
    by (simp add: visible_sentences_drop render_def TextLog_rich_def min_def)
qed

text \<open>
  C7. An interrupt from the keyboard raised in the body of \<open>try\<close> ends \<open>main\<close> with the
  farewell printed and exit code 0. Every other exception leaves \<open>main\<close> uncaught, and
  \<open>main\<close> exits by itself in no other way.
\<close>

theorem keyboard_interrupt_only_graceful_exit:
  "(snd (main_try sel w a ticks) = Inl KeyboardInterrupt \<longrightarrow>
      main_with sel w a ticks =
        (fst (main_try sel w a ticks) @ [Print (CHR 0x0A # ''Done'')], Exit 0))
   \<and> (\<forall>e. snd (main_try sel w a ticks) = Inl e \<and> e \<noteq> KeyboardInterrupt \<longrightarrow>
        main_with sel w a ticks = (fst (main_try sel w a ticks), Uncaught e))
   \<and> (\<forall>c. snd (main_with sel w a ticks) = Exit c \<longrightarrow>
        c = 0 \<and> snd (main_try sel w a ticks) = Inl KeyboardInterrupt)"
  by (cases "main_try sel w a ticks") (auto simp: main_with_def split: sum.splits)

theorem keyboard_interrupt_only_graceful_exit_witness:
  "vosk_tui_main example_world \<lparr>device = None, samplerate = Some 16000, model_arg = None\<rparr>
     [Block (Partial ''bore'') example_now, Raise KeyboardInterrupt] =
     ([CreateModel (ModelLang ''en-us''), OpenStream None 16000,
       CreateRecognizer (ModelLang ''en-us'') 16000, Print (CHR 0x0A # ''Done'')], Exit 0)
   \<and> vosk_tui_main example_world
       \<lparr>device = None, samplerate = Some 16000, model_arg = Some ''org/none''\<rparr> [] =
     ([PathExists ''org/none'', RepoExists ''org/none'', HubGlob ''org/none/*.tar.gz''],
      Uncaught (FileNotFoundError
        ''Could not locate a tar.gz in the repo org/none. Use a colon after the model id to specify one''))"
  using keyboard_interrupt_only_graceful_exit [of select_model_tui example_world
      "\<lparr>device = None, samplerate = Some 16000, model_arg = None\<rparr>"
      "[Block (Partial ''bore'') example_now, Raise KeyboardInterrupt]"]
    keyboard_interrupt_only_graceful_exit [of select_model_tui example_world
      "\<lparr>device = None, samplerate = Some 16000, model_arg = Some ''org/none''\<rparr>" "[]"]
  by (simp add: vosk_tui_main_def example_try_interrupted example_try_no_archive)

text \<open>
  C8, as the claim states it: two renders of the same session, one second apart, would be
  equal. They are not: the header shows the clock.
\<close>

theorem render_same_inputs_differ_counterexample:
  "render example_now example_session \<noteq> render example_later example_session"
proof
  assume "render example_now example_session = render example_later example_session"
  then have "header (render example_now example_session) = header (render example_later example_session)"
    by simp
  then show False
    by (simp add: render_def Header_rich_def ctime_now ctime_later py_replace_char_def)
qed

text \<open>
  C8, amended. The panels of the log, the live input and the footer do not depend on the
  clock, the header depends on the clock only, and a render is the four panels computed
  from the clock, the configuration, the sentences and the live input.
\<close>

theorem render_panes_dependencies:
  "log (render t1 s) = log (render t2 s)
   \<and> input (render t1 s) = input (render t2 s)
   \<and> footer (render t1 s) = footer (render t2 s)
   \<and> header (render t s1) = header (render t s2)
   \<and> render t \<lparr>args = c, completed_sentences = xs, live_input = input_panel p\<rparr> =
       \<lparr>header = Header_rich t, log = TextLog_rich xs, input = input_panel p,
        footer = Footer_rich c\<rparr>"
  by (simp add: render_def)

text \<open>
  C5. The model is selected by the first case that matches. No identifier: the language
  pack \<open>en-us\<close>, with no lookup at all. An identifier that is an existing path: the model
  at that path, and the hub is never asked. Otherwise, in \<open>vosk_tui\<close>, an identifier that
  is a repository of the hub goes to \<open>load_model_from_huggingface\<close>. Anything else is the
  name of a language pack; \<open>vosk_cli\<close> has no hub case.
\<close>

theorem model_resolution_order:
  "select_model_cli w None = Model w (ModelLang ''en-us'')
   \<and> select_model_tui w None = Model w (ModelLang ''en-us'')
   \<and> (path_exists w m = Inr True \<longrightarrow>
        select_model_cli w (Some m) =
          ([PathExists m, CreateModel (ModelPath m)], snd (Model w (ModelPath m)))
        \<and> select_model_tui w (Some m) =
          ([PathExists m, CreateModel (ModelPath m)], snd (Model w (ModelPath m))))
   \<and> (path_exists w m = Inr False \<longrightarrow>
        select_model_cli w (Some m) =
          ([PathExists m, CreateModel (ModelLang m)], snd (Model w (ModelLang m))))
   \<and> (path_exists w m = Inr False \<and> repo_exists w m = Inr True \<longrightarrow>
        select_model_tui w (Some m) =
          ([PathExists m, RepoExists m] @ fst (load_model_from_huggingface w m),
           snd (load_model_from_huggingface w m)))
   \<and> (path_exists w m = Inr False \<and> repo_exists w m = Inr False \<longrightarrow>
        select_model_tui w (Some m) =
          ([PathExists m, RepoExists m, CreateModel (ModelLang m)], snd (Model w (ModelLang m))))"
  by (simp add: select_model_cli_def select_model_tui_def comp_defs Model_trace)

theorem model_resolution_order_witness:
  "select_model_tui example_world (Some ''/models/nl'') =
     ([PathExists ''/models/nl'', CreateModel (ModelPath ''/models/nl'')],
      Inr (ModelPath ''/models/nl''))
   \<and> select_model_cli example_world (Some ''nl'') =
     ([PathExists ''nl'', CreateModel (ModelLang ''nl'')], Inr (ModelLang ''nl''))
   \<and> select_model_tui example_world (Some ''nl'') =
     ([PathExists ''nl'', RepoExists ''nl'', CreateModel (ModelLang ''nl'')],
      Inr (ModelLang ''nl''))
   \<and> select_model_tui example_world (Some ''org/two'') =
     ([PathExists ''org/two'', RepoExists ''org/two'', HubGlob ''org/two/*.tar.gz''],
      Inl (UnboundLocalError ''file_id''))"
proof -
  have p1: "path_exists example_world ''/models/nl'' = Inr True"
    and p2: "path_exists example_world ''nl'' = Inr False"
    and p3: "path_exists example_world ''org/two'' = Inr False"
    and r2: "repo_exists example_world ''nl'' = Inr False"
    and r3: "repo_exists example_world ''org/two'' = Inr True"
    by (simp_all add: example_world_def)
  have l: "load_model_from_huggingface example_world ''org/two'' =
             ([HubGlob ''org/two/*.tar.gz''], Inl (UnboundLocalError ''file_id''))"
    by (simp add: load_model_from_huggingface_def download_and_extract_def comp_defs
        example_world_def)
  have c: "\<And>m. create_model example_world m = Inr ()"
    by (simp add: example_world_def)
  show ?thesis
    using model_resolution_order [of example_world "''/models/nl''"]
      model_resolution_order [of example_world "''nl''"]
      model_resolution_order [of example_world "''org/two''"]
    by (simp add: p1 p2 p3 r2 r3 l c Model_trace)
qed

text \<open>
  C9. With \<open>-r\<close> given, the body of \<open>main\<close> runs with that rate unchanged and the device
  is not queried. With \<open>-r\<close> unset and a finite default rate of the device, the device is
  queried first and the body runs with the default truncated to an integer. The body hands
  the stream and the recognizer that rate and no other, and the configuration that the
  footer shows holds it.
\<close>

theorem samplerate_resolved_before_use:
  "(samplerate a = Some r \<longrightarrow> main_try sel w a ticks = run_session sel w a r ticks)
   \<and> (samplerate a = None \<and> query_devices w (device a) = Inr (Finite x) \<longrightarrow>
        main_try sel w a ticks =
          (QueryDevices (device a)
             # Print (''Using a sample rate of '' @ str_int (if 0 \<le> x then \<lfloor>x\<rfloor> else \<lceil>x\<rceil>))
             # fst (run_session sel w a (if 0 \<le> x then \<lfloor>x\<rfloor> else \<lceil>x\<rceil>) ticks),
           snd (run_session sel w a (if 0 \<le> x then \<lfloor>x\<rfloor> else \<lceil>x\<rceil>) ticks)))
   \<and> (ev \<in> set (fst (run_session select_model_cli w a rate ticks)) \<longrightarrow>
        uses_rate ev = None \<or> uses_rate ev = Some rate)
   \<and> (ev \<in> set (fst (run_session select_model_tui w a rate ticks)) \<longrightarrow>
        uses_rate ev = None \<or> uses_rate ev = Some rate)
   \<and> (snd (run_session sel w a rate ticks) = Inr s \<longrightarrow> cfg_samplerate (args s) = rate)"
proof -
  have 1: "samplerate a = Some r \<longrightarrow> main_try sel w a ticks = run_session sel w a r ticks"
    by (simp add: main_try_def resolve_samplerate_def comp_defs)
  have 2: "samplerate a = None \<and> query_devices w (device a) = Inr (Finite x) \<longrightarrow>
        main_try sel w a ticks =
          (QueryDevices (device a)
             # Print (''Using a sample rate of '' @ str_int (if 0 \<le> x then \<lfloor>x\<rfloor> else \<lceil>x\<rceil>))
             # fst (run_session sel w a (if 0 \<le> x then \<lfloor>x\<rfloor> else \<lceil>x\<rceil>) ticks),
           snd (run_session sel w a (if 0 \<le> x then \<lfloor>x\<rfloor> else \<lceil>x\<rceil>) ticks))"
    by (simp add: main_try_def resolve_samplerate_def comp_defs)
  have 3: "ev \<in> set (fst (run_session select_model_cli w a rate ticks)) \<longrightarrow>
        uses_rate ev = None \<or> uses_rate ev = Some rate"
    using run_session_rate_events [of select_model_cli w a ev rate ticks]
    by (blast dest: select_cli_no_rate)
  have 4: "ev \<in> set (fst (run_session select_model_tui w a rate ticks)) \<longrightarrow>
        uses_rate ev = None \<or> uses_rate ev = Some rate"
    using run_session_rate_events [of select_model_tui w a ev rate ticks]
    by (blast dest: select_tui_no_rate)
  have 5: "snd (run_session sel w a rate ticks) = Inr s \<longrightarrow> cfg_samplerate (args s) = rate"
    by (blast dest: run_session_config)
  from 1 2 3 4 5 show ?thesis by blast
qed

theorem samplerate_resolved_before_use_witness:
  "main_try select_model_cli example_world
     \<lparr>device = None, samplerate = None, model_arg = None\<rparr> [] =
   ([QueryDevices None, Print ''Using a sample rate of 44100'',
     CreateModel (ModelLang ''en-us''), OpenStream None 44100,
     CreateRecognizer (ModelLang ''en-us'') 44100],
    Inr \<lparr>args = \<lparr>cfg_device = None, cfg_samplerate = 44100, cfg_model = None\<rparr>,
         completed_sentences = [], live_input = input_panel []\<rparr>)
   \<and> main_try select_model_cli example_world
     \<lparr>device = None, samplerate = Some 16000, model_arg = None\<rparr> [] =
     run_session select_model_cli example_world
       \<lparr>device = None, samplerate = Some 16000, model_arg = None\<rparr> 16000 []
   \<and> uses_rate (OpenStream None 44100) = Some 44100"
proof -
  have q: "query_devices example_world None = Inr (Finite 44100)"
    by (simp add: example_world_def)
  have m: "OpenStream None 44100 \<in> set (fst (run_session select_model_cli example_world
     \<lparr>device = None, samplerate = None, model_arg = None\<rparr> 44100 []))"
    by (simp add: example_session_given_rate)
  show ?thesis
    using samplerate_resolved_before_use [of "\<lparr>device = None, samplerate = None, model_arg = None\<rparr>"
        16000 select_model_cli example_world "[]" 44100 "OpenStream None 44100" 44100
        "\<lparr>args = \<lparr>cfg_device = None, cfg_samplerate = 44100, cfg_model = None\<rparr>,
         completed_sentences = [], live_input = input_panel []\<rparr>"]
      samplerate_resolved_before_use [of "\<lparr>device = None, samplerate = Some 16000, model_arg = None\<rparr>"
        16000 select_model_cli example_world "[]" 44100 "OpenStream None 44100" 44100
        "\<lparr>args = \<lparr>cfg_device = None, cfg_samplerate = 44100, cfg_model = None\<rparr>,
         completed_sentences = [], live_input = input_panel []\<rparr>"]
      q m
    by (simp add: example_str_int example_session_given_rate)
qed

text \<open>
  C10. An identifier with exactly one colon is split at it: the part before is the
  repository and the part after is the file, and the download of that file from that
  repository is the first thing done. With two colons or more the split gives three
  parts, the unpacking into two variables raises \<open>ValueError\<close>, and nothing is downloaded.
\<close>

theorem colon_qualifier_split:
  "(count_list model_id (CHR '':'') = 1 \<longrightarrow>
      load_model_from_huggingface w model_id =
        download_and_extract w (takeWhile (\<lambda>c. c \<noteq> CHR '':'') model_id)
          (Some (tl (dropWhile (\<lambda>c. c \<noteq> CHR '':'') model_id)))
      \<and> hd (fst (load_model_from_huggingface w model_id)) =
          HubDownload (takeWhile (\<lambda>c. c \<noteq> CHR '':'') model_id)
            (tl (dropWhile (\<lambda>c. c \<noteq> CHR '':'') model_id)))
   \<and> (2 \<le> count_list model_id (CHR '':'') \<longrightarrow>
      load_model_from_huggingface w model_id =
        ([], Inl (ValueError ''too many values to unpack (expected 2)'')))"
proof (intro conjI impI)
  assume one: "count_list model_id (CHR '':'') = 1"
  then have m: "CHR '':'' \<in> set model_id" by (metis count_list_0_iff zero_neq_one)
  show eq: "load_model_from_huggingface w model_id =
        download_and_extract w (takeWhile (\<lambda>c. c \<noteq> CHR '':'') model_id)
          (Some (tl (dropWhile (\<lambda>c. c \<noteq> CHR '':'') model_id)))"
    using m by (simp add: load_model_from_huggingface_def py_split_one_sep [OF one])
  show "hd (fst (load_model_from_huggingface w model_id)) =
          HubDownload (takeWhile (\<lambda>c. c \<noteq> CHR '':'') model_id)
            (tl (dropWhile (\<lambda>c. c \<noteq> CHR '':'') model_id))"
    unfolding eq download_and_extract_def
    by (cases "hf_hub_download w (takeWhile (\<lambda>c. c \<noteq> CHR '':'') model_id)
                 (tl (dropWhile (\<lambda>c. c \<noteq> CHR '':'') model_id))")
       (simp_all add: comp_defs)
next
  assume many: "2 \<le> count_list model_id (CHR '':'')"
  then have m: "CHR '':'' \<in> set model_id" by (metis count_list_0_iff not_numeral_le_zero)
  from py_split_many_sep [OF many] obtain x y z
    where "py_split (CHR '':'') 2 model_id = [x, y, z]" by blast
  with m show "load_model_from_huggingface w model_id =
        ([], Inl (ValueError ''too many values to unpack (expected 2)''))"
    by (simp add: load_model_from_huggingface_def comp_defs)
qed

theorem colon_qualifier_split_witness:
  "count_list ''org/one:x.tar.gz'' (CHR '':'') = 1
   \<and> hd (fst (load_model_from_huggingface example_world ''org/one:x.tar.gz'')) =
       HubDownload ''org/one'' ''x.tar.gz''
   \<and> 2 \<le> count_list ''org/one:x.tar.gz:y'' (CHR '':'')
   \<and> load_model_from_huggingface example_world ''org/one:x.tar.gz:y'' =
       ([], Inl (ValueError ''too many values to unpack (expected 2)''))"
proof -
  have a: "count_list ''org/one:x.tar.gz'' (CHR '':'') = 1" by simp
  have b: "2 \<le> count_list ''org/one:x.tar.gz:y'' (CHR '':'')" by simp
  have "hd (fst (load_model_from_huggingface example_world ''org/one:x.tar.gz'')) =
          HubDownload (takeWhile (\<lambda>c. c \<noteq> CHR '':'') ''org/one:x.tar.gz'')
            (tl (dropWhile (\<lambda>c. c \<noteq> CHR '':'') ''org/one:x.tar.gz''))"
    using a colon_qualifier_split [of "''org/one:x.tar.gz''" example_world] by blast
  then have c: "hd (fst (load_model_from_huggingface example_world ''org/one:x.tar.gz'')) =
          HubDownload ''org/one'' ''x.tar.gz''"
    by simp
  have d: "load_model_from_huggingface example_world ''org/one:x.tar.gz:y'' =
       ([], Inl (ValueError ''too many values to unpack (expected 2)''))"
    using b colon_qualifier_split [of "''org/one:x.tar.gz:y''" example_world] by blast
  from a b c d show ?thesis by blast
qed

text \<open>
  C6, as the claim states it: the archive would be extracted into the sibling directory
  named after its stem. For the archive \<open>vosk-model-0.22.tar.gz\<close> the stem of pathlib is
  \<open>vosk-model-0.22.tar\<close>, and the name without \<open>.tar.gz\<close> is \<open>vosk-model-0.22\<close>; the
  archive is extracted into \<open>vosk-model-0\<close>, which is neither.
\<close>

theorem extraction_dir_is_not_stem_counterexample:
  "Extract ''/cache/org/one/vosk-model-0.22.tar.gz'' ''/cache/org/one/vosk-model-0''
     \<in> set (fst (load_model_from_huggingface example_world ''org/one''))
   \<and> stem (Path ''/cache/org/one/vosk-model-0.22.tar.gz'') = ''vosk-model-0.22.tar''
   \<and> Extract ''/cache/org/one/vosk-model-0.22.tar.gz'' ''/cache/org/one/vosk-model-0.22.tar''
     \<notin> set (fst (load_model_from_huggingface example_world ''org/one''))
   \<and> Extract ''/cache/org/one/vosk-model-0.22.tar.gz'' ''/cache/org/one/vosk-model-0.22''
     \<notin> set (fst (load_model_from_huggingface example_world ''org/one''))"
  by (simp add: example_single_archive_run example_stem)

text \<open>
  C6, amended. For an identifier without a colon whose repository holds exactly one
  archive, that archive is downloaded and extracted into the sibling directory named by
  the part of its file name before the first dot. If that directory then lists exactly
  one entry and the entry is a directory, the model is built from the path of that entry,
  otherwise from the extraction directory.
\<close>

theorem single_archive_downloaded_and_extracted:
  assumes "CHR '':'' \<notin> set model_id"
    and "hub_glob w (model_id @ ''/*.tar.gz'') = Inr [model_id @ ''/'' @ archive]"
    and "hf_hub_download w model_id archive = Inr downloaded"
    and "dest = joinpath (parent (Path downloaded))
                  (takeWhile (\<lambda>c. c \<noteq> CHR ''.'') (name (Path downloaded)))"
    and "extractall w (path_str (Path downloaded)) (path_str dest) = Inr ()"
    and "list_dir w (path_str dest) = Inr files"
    and "final = (if length files = 1 \<and> snd (files ! 0)
                  then joinpath dest (fst (files ! 0)) else dest)"
  shows "load_model_from_huggingface w model_id =
           ([HubGlob (model_id @ ''/*.tar.gz''),
             Print (''Resolved model tar file to be '' @ model_id @ ''/'' @ archive),
             HubDownload model_id archive,
             Print (''Extracting model to '' @ path_str dest),
             Extract (path_str (Path downloaded)) (path_str dest),
             ListDir (path_str dest),
             CreateModel (ModelPath (path_str final))],
            snd (Model w (ModelPath (path_str final))))"
proof -
  have f: "removeprefix ''/'' (removeprefix model_id (model_id @ ''/'' @ archive)) = archive"
    using removeprefix_append [of "''/''" archive] by (simp add: removeprefix_append)
  have l: "load_model_from_huggingface w model_id =
             (HubGlob (model_id @ ''/*.tar.gz'')
                # Print (''Resolved model tar file to be '' @ model_id @ ''/'' @ archive)
                # fst (download_and_extract w model_id (Some archive)),
              snd (download_and_extract w model_id (Some archive)))"
    using assms(1,2) f by (simp add: load_model_from_huggingface_def comp_defs)
  have d: "download_and_extract w model_id (Some archive) =
             ([HubDownload model_id archive,
               Print (''Extracting model to '' @ path_str dest),
               Extract (path_str (Path downloaded)) (path_str dest),
               ListDir (path_str dest),
               CreateModel (ModelPath (path_str final))],
              snd (Model w (ModelPath (path_str final))))"
    using assms(3,5,6) unfolding assms(7) assms(4)
    by (simp add: download_and_extract_def comp_defs Let_def extraction_dir_name Model_trace)
  show ?thesis unfolding l d by simp
qed

theorem single_archive_downloaded_and_extracted_witness:
  "load_model_from_huggingface example_world ''org/one'' =
     ([HubGlob ''org/one/*.tar.gz'',
       Print ''Resolved model tar file to be org/one/vosk-model-0.22.tar.gz'',
       HubDownload ''org/one'' ''vosk-model-0.22.tar.gz'',
       Print ''Extracting model to /cache/org/one/vosk-model-0'',
       Extract ''/cache/org/one/vosk-model-0.22.tar.gz'' ''/cache/org/one/vosk-model-0'',
       ListDir ''/cache/org/one/vosk-model-0'',
       CreateModel (ModelPath ''/cache/org/one/vosk-model-0/inner'')],
      Inr (ModelPath ''/cache/org/one/vosk-model-0/inner''))"
proof -
  let ?dest = "\<lparr>root = ''/'', parts = [''cache'', ''org'', ''one'', ''vosk-model-0'']\<rparr>"
  let ?final = "\<lparr>root = ''/'', parts = [''cache'', ''org'', ''one'', ''vosk-model-0'', ''inner'']\<rparr>"
  have 1: "CHR '':'' \<notin> set ''org/one''" by simp
  have 2: "hub_glob example_world (''org/one'' @ ''/*.tar.gz'') =
             Inr [''org/one'' @ ''/'' @ ''vosk-model-0.22.tar.gz'']"
    by (simp add: example_world_def)
  have 3: "hf_hub_download example_world ''org/one'' ''vosk-model-0.22.tar.gz'' =
             Inr ''/cache/org/one/vosk-model-0.22.tar.gz''"
    by (simp add: example_world_def)
  have 4: "?dest = joinpath (parent (Path ''/cache/org/one/vosk-model-0.22.tar.gz''))
      (takeWhile (\<lambda>c. c \<noteq> CHR ''.'') (name (Path ''/cache/org/one/vosk-model-0.22.tar.gz'')))"
    by (simp add: example_downloaded_path example_extraction_dir)
  have 5: "extractall example_world (path_str (Path ''/cache/org/one/vosk-model-0.22.tar.gz''))
             (path_str ?dest) = Inr ()"
    by (simp add: example_world_def)
  have 6: "list_dir example_world (path_str ?dest) = Inr [(''inner'', True)]"
    by (simp add: example_world_def)
  have 7: "?final = (if length [(''inner'', True)] = 1 \<and> snd ([(''inner'', True)] ! 0)
                     then joinpath ?dest (fst ([(''inner'', True)] ! 0)) else ?dest)"
    by (simp add: example_inner_dir)
  have c: "create_model example_world (ModelPath (path_str ?final)) = Inr ()"
    by (simp add: example_world_def)
  show ?thesis
    using single_archive_downloaded_and_extracted [OF 1 2 3 4 5 6 7] c
    by (simp add: example_downloaded_path path_str_def Model_trace)
qed

end
